theory Spec2Isabelle
  imports Complex_Main "HOL-Library.Multiset"
begin

section \<open>Strings\<close>

text \<open>
  A Python \<open>str\<close> is modelled as a \<^typ>\<open>string\<close> whose characters are the code points
  below 256 (Latin-1), so that \<^const>\<open>length\<close> is Python's \<open>len\<close>. The character tables
  below are the ones of CPython for these code points.
\<close>

definition code_point :: "char \<Rightarrow> nat" where
  "code_point c = of_char c"

text \<open>\<open>str.lower()\<close>, one character: A-Z and the Latin-1 capitals move up by 32.\<close>

definition lower_char :: "char \<Rightarrow> char" where
  "lower_char c =
     (let n = code_point c
      in if (65 \<le> n \<and> n \<le> 90) \<or> (192 \<le> n \<and> n \<le> 222 \<and> n \<noteq> 215)
         then char_of (n + 32) else c)"

definition lower :: "string \<Rightarrow> string" where
  "lower s = map lower_char s"

text \<open>\<open>s.startswith(p)\<close>, the test at one position of Python's substring search.\<close>

fun startswith :: "string \<Rightarrow> string \<Rightarrow> bool" where
  "startswith s [] = True"
| "startswith [] (p # ps) = False"
| "startswith (c # cs) (p # ps) = (c = p \<and> startswith cs ps)"

text \<open>\<open>needle in haystack\<close> on strings: some position of the haystack starts with the needle.\<close>

fun py_in :: "string \<Rightarrow> string \<Rightarrow> bool" where
  "py_in needle [] = (needle = [])"
| "py_in needle (c # cs) = (startswith (c # cs) needle \<or> py_in needle cs)"

section \<open>Stored records\<close>

text \<open>
  A stored document is a dictionary; a key may be missing, which \<open>resume.get(key, default)\<close>
  turns into the default. Each field is therefore optional. \<open>oid\<close> is the \<open>_id\<close> key.
\<close>

record resume =
  oid :: string
  name :: "string option"
  email :: "string option"
  phone :: "string option"
  skills :: "string list option"
  education :: "string list option"
  experience :: "string list option"
  summary :: "string option"

definition get_list :: "'a list option \<Rightarrow> 'a list" where
  "get_list v = (case v of None \<Rightarrow> [] | Some xs \<Rightarrow> xs)"

text \<open>Truthiness of \<open>resume.get(key)\<close> for a string field: present and non-empty.\<close>

definition truthy_str :: "string option \<Rightarrow> bool" where
  "truthy_str v = (case v of None \<Rightarrow> False | Some s \<Rightarrow> s \<noteq> [])"

section \<open>Scoring\<close>

datatype grade = Grade_A | Grade_B | Grade_C | Grade_D

text \<open>
  The entries of \<open>details\<close>; the source renders each one with an f-string, which is left
  out: an entry keeps the numbers that the rendering shows.
\<close>

datatype detail =
    Skills_detail nat nat
  | Experience_detail nat nat
  | Education_detail nat nat
  | Contact_detail nat
  | Summary_detail nat
  | Job_match_detail rat nat nat

record score_data =
  score :: rat
  max_score :: rat
  percentage :: rat
  details :: "detail list"
  grade :: grade

text \<open>
  The inner loop over the skills of one requirement, with its \<open>break\<close>: the first skill
  that contains the requirement adds one and ends the loop.
\<close>

fun match_requirement :: "string \<Rightarrow> string list \<Rightarrow> nat" where
  "match_requirement req [] = 0"
| "match_requirement req (skill # rest) =
     (if py_in (lower req) (lower skill) then 1 else match_requirement req rest)"

text \<open>The outer loop over the requirements, \<open>matching_skills\<close> being its accumulator.\<close>

fun count_matching :: "nat \<Rightarrow> string list \<Rightarrow> string list \<Rightarrow> nat" where
  "count_matching matching_skills [] skills_l = matching_skills"
| "count_matching matching_skills (req # reqs) skills_l =
     count_matching (matching_skills + match_requirement req skills_l) reqs skills_l"

definition skills_score :: "resume \<Rightarrow> nat" where
  "skills_score r = min (length (get_list (skills r)) * 3) 30"

definition exp_score :: "resume \<Rightarrow> nat" where
  "exp_score r = min (length (get_list (experience r)) * 7) 35"

definition edu_score :: "resume \<Rightarrow> nat" where
  "edu_score r = min (length (get_list (education r)) * 10) 20"

definition contact_score :: "resume \<Rightarrow> nat" where
  "contact_score r =
     (if truthy_str (email r) then 5 else 0) + (if truthy_str (phone r) then 5 else 0)"

definition summary_score :: "resume \<Rightarrow> nat" where
  "summary_score r =
     (case summary r of
        None \<Rightarrow> 0
      | Some s \<Rightarrow> if s \<noteq> [] \<and> length s > 50 then 5 else 0)"

text \<open>The score after the five base components, before the job-requirements block.\<close>

definition base_score :: "resume \<Rightarrow> nat" where
  "base_score r = skills_score r + exp_score r + edu_score r + contact_score r + summary_score r"

definition base_details :: "resume \<Rightarrow> detail list" where
  "base_details r =
     [Skills_detail (skills_score r) (length (get_list (skills r))),
      Experience_detail (exp_score r) (length (get_list (experience r))),
      Education_detail (edu_score r) (length (get_list (education r))),
      Contact_detail (contact_score r),
      Summary_detail (summary_score r)]"

text \<open>\<open>if job_requirements:\<close> holds for a list that is given and not empty.\<close>

definition truthy_list :: "'a list option \<Rightarrow> bool" where
  "truthy_list v = (case v of None \<Rightarrow> False | Some xs \<Rightarrow> xs \<noteq> [])"

definition req_score :: "resume \<Rightarrow> string list \<Rightarrow> rat" where
  "req_score r reqs =
     (if reqs \<noteq> []
      then (of_nat (count_matching 0 reqs (get_list (skills r))) / of_nat (length reqs)) * 20
      else 0)"

definition grade_of :: "rat \<Rightarrow> rat \<Rightarrow> grade" where
  "grade_of sc mx =
     (if sc \<ge> mx * (8 / 10) then Grade_A
      else if sc \<ge> mx * (6 / 10) then Grade_B
      else if sc \<ge> mx * (4 / 10) then Grade_C
      else Grade_D)"

text \<open>
  \<open>calculate_resume_score(resume, job_requirements=None)\<close>. Python's floats are taken as
  exact rationals.
\<close>

definition calculate_resume_score :: "resume \<Rightarrow> string list option \<Rightarrow> score_data" where
  "calculate_resume_score r job_requirements =
     (let sc = of_nat (base_score r);
          mx = 100;
          ds = base_details r;
          (sc, mx, ds) =
            (if truthy_list job_requirements
             then (let reqs = get_list job_requirements;
                       matching_skills = count_matching 0 reqs (get_list (skills r));
                       rs = req_score r reqs
                   in (sc + rs, mx + 20,
                       ds @ [Job_match_detail rs matching_skills (length reqs)]))
             else (sc, mx, ds))
      in \<lparr>score = sc,
          max_score = mx,
          percentage = (sc / mx) * 100,
          details = ds,
          grade = grade_of sc mx\<rparr>)"

text \<open>
  The grade in the words of the specification, as a function of the percentage alone:
  A from 80, B from 60, C from 40, D below. It is compared with \<^const>\<open>grade_of\<close>, which is
  the expression of the source.
\<close>

definition grade_of_percentage :: "rat \<Rightarrow> grade" where
  "grade_of_percentage p =
     (if p \<ge> 80 then Grade_A else if p \<ge> 60 then Grade_B else if p \<ge> 40 then Grade_C
      else Grade_D)"

section \<open>Sample records\<close>

definition sample_skills_10 :: "string list" where
  "sample_skills_10 = [''Python'', ''Java'', ''SQL'', ''Excel'', ''C++'', ''Pandas'', ''Numpy'',
     ''React'', ''HTML'', ''CSS'']"

definition sample_experience_5 :: "string list" where
  "sample_experience_5 = [''Worked at A'', ''Worked at B'', ''Project C'', ''Internship D'',
     ''Role E'']"

definition sample_summary :: "string" where
  "sample_summary = ''Engineer with ten years of experience in data platforms.''"

definition full_resume :: resume where
  "full_resume = \<lparr>oid = ''r1'', name = Some ''Ada'', email = Some ''ada@x.org'',
     phone = Some ''0123456789'', skills = Some sample_skills_10,
     education = Some [''BSc Mathematics'', ''MSc Computing''],
     experience = Some sample_experience_5, summary = Some sample_summary\<rparr>"

definition strong_resume :: resume where
  "strong_resume = \<lparr>oid = ''r2'', name = Some ''Bob'', email = Some ''bob@x.org'',
     phone = Some ''0123456789'', skills = Some sample_skills_10,
     education = Some [''BSc Physics''],
     experience = Some sample_experience_5, summary = None\<rparr>"


section \<open>Similar resumes\<close>

datatype py_error = ZeroDivisionError

text \<open>Python's \<open>a / b\<close> on numbers; a zero divisor raises.\<close>

definition truediv :: "rat \<Rightarrow> rat \<Rightarrow> py_error + rat" where
  "truediv a b = (if b = 0 then Inl ZeroDivisionError else Inr (a / b))"

text \<open>\<open>set(resume.get('skills', []))\<close>\<close>

definition skill_set :: "resume \<Rightarrow> string set" where
  "skill_set r = set (get_list (skills r))"

text \<open>
  The two lines that compute \<open>common_skills\<close> and \<open>similarity_score\<close> for a reference
  skill set and the skill set of another record.
\<close>

definition similarity_score :: "string set \<Rightarrow> string set \<Rightarrow> py_error + rat" where
  "similarity_score reference_skills resume_skills =
     (let common_skills = reference_skills \<inter> resume_skills
      in truediv (of_nat (card common_skills))
           (of_nat (card (reference_skills \<union> resume_skills))))"

record similarity =
  sim_resume :: resume
  sim_score :: rat
  common_skills :: "string set"

text \<open>
  The loop over \<open>all_resumes\<close>, \<open>similarities\<close> being the list it appends to. An exception
  ends the loop.
\<close>

fun collect_similarities ::
  "string set \<Rightarrow> resume list \<Rightarrow> similarity list \<Rightarrow> py_error + similarity list" where
  "collect_similarities reference_skills [] similarities = Inr similarities"
| "collect_similarities reference_skills (r # all_resumes) similarities =
     (let resume_skills = skill_set r
      in if resume_skills \<noteq> {}
         then (case similarity_score reference_skills resume_skills of
                 Inl e \<Rightarrow> Inl e
               | Inr sc \<Rightarrow>
                   if sc > 0
                   then collect_similarities reference_skills all_resumes
                          (similarities @
                             [\<lparr>sim_resume = r, sim_score = sc,
                               common_skills = reference_skills \<inter> resume_skills\<rparr>])
                   else collect_similarities reference_skills all_resumes similarities)
         else collect_similarities reference_skills all_resumes similarities)"

text \<open>
  \<open>similarities.sort(key=lambda x: x['score'], reverse=True)\<close>. Python's sort is stable and
  \<open>reverse=True\<close> keeps the original order of elements with equal keys, which is a stable
  ascending sort by the negated key.
\<close>

definition sort_by_score_desc :: "similarity list \<Rightarrow> similarity list" where
  "sort_by_score_desc similarities = sort_key (\<lambda>x. - sim_score x) similarities"

text \<open>
  The slice \<open>xs[:limit]\<close>: the first \<open>limit\<close> elements, and for a negative \<open>limit\<close> all but
  the last \<open>-limit\<close> ones.
\<close>

definition slice_to :: "'a list \<Rightarrow> int \<Rightarrow> 'a list" where
  "slice_to xs limit =
     (if limit \<ge> 0 then take (nat limit) xs else take (length xs - nat (- limit)) xs)"

text \<open>
  The record store is the list of its documents in iteration order;
  \<open>collection.find_one({"_id": object_id})\<close> and
  \<open>collection.find({"_id": {"$ne": object_id}})\<close> are queries on it.
\<close>

definition find_one :: "resume list \<Rightarrow> string \<Rightarrow> resume option" where
  "find_one collection object_id = List.find (\<lambda>r. oid r = object_id) collection"

definition find_others :: "resume list \<Rightarrow> string \<Rightarrow> resume list" where
  "find_others collection object_id = filter (\<lambda>r. oid r \<noteq> object_id) collection"

text \<open>
  The outcomes of the \<open>find_similar_resumes\<close> tool. The source renders each of them as
  text; the rendering is left out. \<open>Error_finding\<close> is the \<open>except Exception\<close> branch.
\<close>

datatype similar_result =
    Reference_not_found
  | Reference_no_skills
  | No_similar_found
  | Similar_resumes "similarity list"
  | Error_finding py_error

definition find_similar_resumes :: "resume list \<Rightarrow> string \<Rightarrow> int \<Rightarrow> similar_result" where
  "find_similar_resumes collection object_id limit =
     (case find_one collection object_id of
        None \<Rightarrow> Reference_not_found
      | Some reference_resume \<Rightarrow>
          (let reference_skills = skill_set reference_resume
           in if reference_skills = {} then Reference_no_skills
              else (let all_resumes = find_others collection object_id
                    in case collect_similarities reference_skills all_resumes [] of
                         Inl e \<Rightarrow> Error_finding e
                       | Inr similarities \<Rightarrow>
                           (let similarities = slice_to (sort_by_score_desc similarities) limit
                            in if similarities = [] then No_similar_found
                               else Similar_resumes similarities))))"

text \<open>
  The Jaccard index in the words of the specification: the size of the intersection over
  the size of the union of the two records' skill sets.
\<close>

definition jaccard :: "resume \<Rightarrow> resume \<Rightarrow> rat" where
  "jaccard a b =
     of_nat (card (skill_set a \<inter> skill_set b)) / of_nat (card (skill_set a \<union> skill_set b))"

definition sample_corpus :: "resume list" where
  "sample_corpus =
     [\<lparr>oid = ''a'', name = Some ''Ann'', email = None, phone = None,
        skills = Some [''Python'', ''SQL''], education = None, experience = None,
        summary = None\<rparr>,
      \<lparr>oid = ''b'', name = Some ''Ben'', email = None, phone = None,
        skills = Some [''Python'', ''Java''], education = None, experience = None,
        summary = None\<rparr>,
      \<lparr>oid = ''c'', name = Some ''Cy'', email = None, phone = None,
        skills = Some [], education = None, experience = None, summary = None\<rparr>,
      \<lparr>oid = ''d'', name = Some ''Di'', email = None, phone = None,
        skills = Some [''SQL'', ''Python''], education = None, experience = None,
        summary = None\<rparr>,
      \<lparr>oid = ''e'', name = Some ''Ed'', email = None, phone = None,
        skills = Some [''SQL'', ''Excel''], education = None, experience = None,
        summary = None\<rparr>,
      \<lparr>oid = ''f'', name = Some ''Flo'', email = None, phone = None,
        skills = Some [''Docker''], education = None, experience = None,
        summary = None\<rparr>]"


definition ranking_entry :: "resume \<Rightarrow> resume \<Rightarrow> similarity" where
  "ranking_entry ref r =
     \<lparr>sim_resume = r, sim_score = jaccard ref r,
      common_skills = skill_set ref \<inter> skill_set r\<rparr>"

text \<open>
  The ranking in the words of the specification: the other records of the corpus whose
  similarity to the reference is positive, in corpus order, sorted by descending score.
\<close>

definition ranked_candidates :: "resume \<Rightarrow> string \<Rightarrow> resume list \<Rightarrow> similarity list" where
  "ranked_candidates ref object_id collection =
     sort_by_score_desc (map (ranking_entry ref)
       (filter (\<lambda>r. oid r \<noteq> object_id \<and> 0 < jaccard ref r) collection))"

definition ann :: resume where
  "ann = \<lparr>oid = ''a'', name = Some ''Ann'', email = None, phone = None,
        skills = Some [''Python'', ''SQL''], education = None, experience = None,
        summary = None\<rparr>"

definition ben :: resume where
  "ben = \<lparr>oid = ''b'', name = Some ''Ben'', email = None, phone = None,
        skills = Some [''Python'', ''Java''], education = None, experience = None,
        summary = None\<rparr>"

definition cy :: resume where
  "cy = \<lparr>oid = ''c'', name = Some ''Cy'', email = None, phone = None,
        skills = Some [], education = None, experience = None, summary = None\<rparr>"


section \<open>Corpus statistics\<close>

text \<open>
  \<open>collection.count_documents({key: {"$exists": True, "$ne": []}})\<close> and the same query
  with \<open>""\<close> for a string field: the documents that have the key with a value other than
  the empty one.
\<close>

definition count_with :: "(resume \<Rightarrow> 'a list option) \<Rightarrow> resume list \<Rightarrow> nat" where
  "count_with field collection =
     length (filter (\<lambda>r. field r \<noteq> None \<and> field r \<noteq> Some []) collection)"

record db_stats =
  total_resumes :: nat
  resumes_with_skills :: nat
  resumes_with_experience :: nat
  resumes_with_education :: nat
  resumes_with_email :: nat
  resumes_with_phone :: nat

record averages =
  avg_skills :: rat
  avg_experience :: rat
  avg_education :: rat

text \<open>
  The aggregation pipeline: \<open>$project\<close> takes the size of each list, a missing one counting
  as empty, and \<open>$group\<close> with \<open>_id: None\<close> averages the sizes over all documents. The
  store returns one group for a non-empty collection and no group for an empty one.
\<close>

definition sum_sizes :: "(resume \<Rightarrow> 'a list option) \<Rightarrow> resume list \<Rightarrow> nat" where
  "sum_sizes field collection = sum_list (map (\<lambda>r. length (get_list (field r))) collection)"

definition aggregate_averages :: "resume list \<Rightarrow> averages list" where
  "aggregate_averages collection =
     (if collection = [] then []
      else [\<lparr>avg_skills = of_nat (sum_sizes skills collection) / of_nat (length collection),
             avg_experience = of_nat (sum_sizes experience collection) / of_nat (length collection),
             avg_education = of_nat (sum_sizes education collection) / of_nat (length collection)\<rparr>])"

text \<open>The percentage \<open>count / total_resumes * 100\<close> that the report shows next to a count.\<close>

definition percent_of :: "nat \<Rightarrow> nat \<Rightarrow> py_error + rat" where
  "percent_of count_v total_count =
     (case truediv (of_nat count_v) (of_nat total_count) of
        Inl e \<Rightarrow> Inl e
      | Inr q \<Rightarrow> Inr (q * 100))"

record completeness =
  pct_skills :: rat
  pct_experience :: rat
  pct_education :: rat
  pct_email :: rat
  pct_phone :: rat

definition completeness_of :: "db_stats \<Rightarrow> py_error + completeness" where
  "completeness_of stats =
     (case percent_of (resumes_with_skills stats) (total_resumes stats) of
        Inl e \<Rightarrow> Inl e
      | Inr p1 \<Rightarrow>
     (case percent_of (resumes_with_experience stats) (total_resumes stats) of
        Inl e \<Rightarrow> Inl e
      | Inr p2 \<Rightarrow>
     (case percent_of (resumes_with_education stats) (total_resumes stats) of
        Inl e \<Rightarrow> Inl e
      | Inr p3 \<Rightarrow>
     (case percent_of (resumes_with_email stats) (total_resumes stats) of
        Inl e \<Rightarrow> Inl e
      | Inr p4 \<Rightarrow>
     (case percent_of (resumes_with_phone stats) (total_resumes stats) of
        Inl e \<Rightarrow> Inl e
      | Inr p5 \<Rightarrow>
          Inr \<lparr>pct_skills = p1, pct_experience = p2, pct_education = p3,
               pct_email = p4, pct_phone = p5\<rparr>)))))"

text \<open>
  The outcomes of the \<open>get_database_stats\<close> tool: the text \<open>Database is empty.\<close>, the
  report (counts, their percentages, and the averages when the pipeline returned a group),
  or the text of an exception caught by the handler of \<open>call_tool\<close>. The rendering of the
  report as text is left out.
\<close>

datatype stats_result =
    Database_is_empty
  | Statistics db_stats completeness "averages option"
  | Stats_error py_error

definition collect_stats :: "resume list \<Rightarrow> db_stats" where
  "collect_stats collection =
     \<lparr>total_resumes = length collection,
      resumes_with_skills = count_with skills collection,
      resumes_with_experience = count_with experience collection,
      resumes_with_education = count_with education collection,
      resumes_with_email = count_with email collection,
      resumes_with_phone = count_with phone collection\<rparr>"

definition get_database_stats :: "resume list \<Rightarrow> stats_result" where
  "get_database_stats collection =
     (let total_count = length collection
      in if total_count = 0 then Database_is_empty
         else (let stats = collect_stats collection;
                   avg_data = aggregate_averages collection;
                   avgs = (case avg_data of [] \<Rightarrow> None | d # _ \<Rightarrow> Some d)
               in case completeness_of stats of
                    Inl e \<Rightarrow> Stats_error e
                  | Inr pcts \<Rightarrow> Statistics stats pcts avgs))"

text \<open>
  The report that the specification describes for an empty corpus: every count 0 and
  every average 0.0.
\<close>

definition zero_report :: stats_result where
  "zero_report =
     Statistics
       \<lparr>total_resumes = 0, resumes_with_skills = 0, resumes_with_experience = 0,
        resumes_with_education = 0, resumes_with_email = 0, resumes_with_phone = 0\<rparr>
       \<lparr>pct_skills = 0, pct_experience = 0, pct_education = 0, pct_email = 0, pct_phone = 0\<rparr>
       (Some \<lparr>avg_skills = 0, avg_experience = 0, avg_education = 0\<rparr>)"

definition is_report :: "stats_result \<Rightarrow> bool" where
  "is_report res = (case res of Statistics _ _ _ \<Rightarrow> True | _ \<Rightarrow> False)"

section \<open>Text operations of the extraction\<close>

text \<open>Whitespace as \<open>str.strip()\<close> sees it, and the line boundaries of \<open>str.splitlines()\<close>.\<close>

definition is_space :: "char \<Rightarrow> bool" where
  "is_space c =
     (let n = code_point c
      in (9 \<le> n \<and> n \<le> 13) \<or> (28 \<le> n \<and> n \<le> 32) \<or> n = 133 \<or> n = 160)"

definition is_linebreak :: "char \<Rightarrow> bool" where
  "is_linebreak c =
     (let n = code_point c
      in (10 \<le> n \<and> n \<le> 13) \<or> (28 \<le> n \<and> n \<le> 30) \<or> n = 133)"

definition strip :: "string \<Rightarrow> string" where
  "strip s = rev (dropWhile is_space (rev (dropWhile is_space s)))"

text \<open>
  \<open>str.splitlines()\<close>: \<open>cur\<close> is the line read so far. A carriage return followed by a
  line feed is one boundary, and a boundary at the very end opens no further line.
\<close>

fun splitlines_from :: "string \<Rightarrow> string \<Rightarrow> string list" where
  "splitlines_from cur [] = (if cur = [] then [] else [cur])"
| "splitlines_from cur [c] = (if is_linebreak c then [cur] else [cur @ [c]])"
| "splitlines_from cur (c # d # cs) =
     (if c = CHR 0x0D \<and> d = CHR 0x0A then cur # splitlines_from [] cs
      else if is_linebreak c then cur # splitlines_from [] (d # cs)
      else splitlines_from (cur @ [c]) (d # cs))"

definition splitlines :: "string \<Rightarrow> string list" where
  "splitlines s = splitlines_from [] s"

text \<open>\<open>text.split("\n\n")\<close>: the pieces between non-overlapping pairs of line feeds.\<close>

fun split_blank_from :: "string \<Rightarrow> string \<Rightarrow> string list" where
  "split_blank_from cur [] = [cur]"
| "split_blank_from cur [c] = [cur @ [c]]"
| "split_blank_from cur (c # d # cs) =
     (if c = CHR 0x0A \<and> d = CHR 0x0A then cur # split_blank_from [] cs
      else split_blank_from (cur @ [c]) (d # cs))"

definition split_blank :: "string \<Rightarrow> string list" where
  "split_blank s = split_blank_from [] s"

section \<open>Regular expressions\<close>

text \<open>
  The classes \<open>\w\<close> and \<open>\d\<close> of \<open>re\<close> on a \<open>str\<close> pattern, for the code points below 256.
\<close>

definition is_word :: "char \<Rightarrow> bool" where
  "is_word c =
     (let n = code_point c
      in (48 \<le> n \<and> n \<le> 57) \<or> (65 \<le> n \<and> n \<le> 90) \<or> n = 95 \<or> (97 \<le> n \<and> n \<le> 122)
         \<or> n = 170 \<or> n = 178 \<or> n = 179 \<or> n = 181 \<or> n = 185 \<or> n = 186
         \<or> (188 \<le> n \<and> n \<le> 190) \<or> (192 \<le> n \<and> n \<le> 214) \<or> (216 \<le> n \<and> n \<le> 246)
         \<or> 248 \<le> n)"

definition is_digit :: "char \<Rightarrow> bool" where
  "is_digit c = (let n = code_point c in 48 \<le> n \<and> n \<le> 57)"

text \<open>
  The pieces that the two patterns of \<open>extract_info\<close> are made of: the assertion \<open>\b\<close>,
  and a character class repeated greedily between a lower and an optional upper bound
  (a literal character is a class repeated once).
\<close>

datatype atom = Boundary | Chars "char \<Rightarrow> bool" nat "nat option"

text \<open>
  A position in the text is the character before it, if any, and the rest of the text.
  \<open>\b\<close> holds where exactly one of the two neighbours is a word character.
\<close>

definition word_before :: "char option \<Rightarrow> bool" where
  "word_before prev = (case prev of None \<Rightarrow> False | Some c \<Rightarrow> is_word c)"

definition word_after :: "string \<Rightarrow> bool" where
  "word_after rest = (case rest of [] \<Rightarrow> False | c # _ \<Rightarrow> is_word c)"

definition word_boundary :: "char option \<Rightarrow> string \<Rightarrow> bool" where
  "word_boundary prev rest = (word_before prev \<noteq> word_after rest)"

definition last_before :: "char option \<Rightarrow> string \<Rightarrow> char option" where
  "last_before prev consumed = (if consumed = [] then prev else Some (last consumed))"

text \<open>
  The repetition counts that a greedy class tries, in the order of trying: from the
  longest run that the text and the upper bound allow down to the lower bound.
\<close>

definition counts_desc :: "nat \<Rightarrow> nat option \<Rightarrow> nat \<Rightarrow> nat list" where
  "counts_desc lo hi run =
     rev [lo ..< Suc (case hi of None \<Rightarrow> run | Some h \<Rightarrow> min h run)]"

fun first_some :: "('a \<Rightarrow> 'b option) \<Rightarrow> 'a list \<Rightarrow> 'b option" where
  "first_some f [] = None"
| "first_some f (x # xs) = (case f x of Some y \<Rightarrow> Some y | None \<Rightarrow> first_some f xs)"

text \<open>
  The backtracking matcher at one position: the text matched by the pattern there, the
  same one that \<open>re\<close> finds, or \<open>None\<close>.
\<close>

primrec match_here :: "atom list \<Rightarrow> char option \<Rightarrow> string \<Rightarrow> string option" where
  "match_here [] prev rest = Some []"
| "match_here (a # pattern) prev rest =
     (case a of
        Boundary \<Rightarrow> if word_boundary prev rest then match_here pattern prev rest else None
      | Chars cls lo hi \<Rightarrow>
          first_some
            (\<lambda>n. case match_here pattern (last_before prev (take n rest)) (drop n rest) of
                   None \<Rightarrow> None
                 | Some m \<Rightarrow> Some (take n rest @ m))
            (counts_desc lo hi (length (takeWhile cls rest))))"

text \<open>\<open>re.search\<close>: the match at the leftmost position that has one.\<close>

fun search_from :: "atom list \<Rightarrow> char option \<Rightarrow> string \<Rightarrow> string option" where
  "search_from pattern prev [] = match_here pattern prev []"
| "search_from pattern prev (c # cs) =
     (case match_here pattern prev (c # cs) of
        Some m \<Rightarrow> Some m
      | None \<Rightarrow> search_from pattern (Some c) cs)"

definition re_search :: "atom list \<Rightarrow> string \<Rightarrow> string option" where
  "re_search pattern text = search_from pattern None text"

definition lit :: "char \<Rightarrow> atom" where
  "lit c = Chars (\<lambda>x. x = c) 1 (Some 1)"

text \<open>The class \<open>[\w\.-]\<close>.\<close>

definition email_class :: "char \<Rightarrow> bool" where
  "email_class c = (is_word c \<or> c = CHR ''.'' \<or> c = CHR ''-'')"

text \<open>\<open>\b[\w\.-]+@[\w\.-]+\.\w{2,4}\b\<close>\<close>

definition email_pattern :: "atom list" where
  "email_pattern =
     [Boundary, Chars email_class 1 None, lit CHR ''@'', Chars email_class 1 None,
      lit CHR ''.'', Chars is_word 2 (Some 4), Boundary]"

text \<open>\<open>\b\d{10}\b\<close>\<close>

definition phone_pattern :: "atom list" where
  "phone_pattern = [Boundary, Chars is_digit 10 (Some 10), Boundary]"

subsection \<open>What a pattern matches\<close>








section \<open>Extraction\<close>

text \<open>
  The dictionary that \<open>extract_info\<close> returns. It has every key, and no \<open>_id\<close> yet: the
  store adds that one when the record is inserted.
\<close>

record info =
  info_name :: string
  info_email :: string
  info_phone :: string
  info_skills :: "string list"
  info_education :: "string list"
  info_experience :: "string list"
  info_summary :: string

definition sample_skills :: "string list" where
  "sample_skills =
     [''Python'', ''Java'', ''SQL'', ''Excel'', ''C++'', ''Machine Learning'',
      ''Data Science'', ''TensorFlow'', ''Pandas'', ''Numpy'', ''Power BI'',
      ''React'', ''Node.js'', ''JavaScript'', ''HTML'', ''CSS'', ''MongoDB'',
      ''Flask'', ''Django'', ''AWS'', ''Docker'', ''Kubernetes'', ''Git'']"

definition education_keywords :: "string list" where
  "education_keywords =
     [''B.Tech'', ''M.Tech'', ''Bachelor'', ''Master'', ''PhD'', ''BSc'', ''MSc'', ''MBA'',
      ''High School'']"

definition experience_keywords :: "string list" where
  "experience_keywords =
     [''experience'', ''worked'', ''project'', ''internship'', ''job'', ''role'', ''position'']"

text \<open>
  The loop over \<open>doc.ents\<close>, the entities being given as pairs of label and text: a
  \<open>PERSON\<close> entity sets the name as long as the name is empty.
\<close>

fun first_person :: "(string \<times> string) list \<Rightarrow> string \<Rightarrow> string" where
  "first_person [] name_v = name_v"
| "first_person ((label, ent_text) # ents) name_v =
     (if label = ''PERSON'' \<and> name_v = [] then first_person ents ent_text
      else first_person ents name_v)"

text \<open>\<open>m.group() if m else ""\<close>\<close>

definition group_or_empty :: "string option \<Rightarrow> string" where
  "group_or_empty m = (case m of None \<Rightarrow> [] | Some g \<Rightarrow> g)"

text \<open>The loop over \<open>sample_skills\<close>.\<close>

fun collect_skills :: "string list \<Rightarrow> string \<Rightarrow> string list \<Rightarrow> string list" where
  "collect_skills [] text skills_v = skills_v"
| "collect_skills (skill # rest) text skills_v =
     (if py_in (lower skill) (lower text) then collect_skills rest text (skills_v @ [skill])
      else collect_skills rest text skills_v)"

text \<open>The inner loop over the education keywords for one line, and the loop over the lines.\<close>

fun add_education_line :: "string list \<Rightarrow> string \<Rightarrow> string list \<Rightarrow> string list" where
  "add_education_line [] line education_v = education_v"
| "add_education_line (keyword # rest) line education_v =
     (if py_in (lower keyword) (lower line)
      then add_education_line rest line (education_v @ [strip line])
      else add_education_line rest line education_v)"

fun collect_education :: "string list \<Rightarrow> string list \<Rightarrow> string list" where
  "collect_education [] education_v = education_v"
| "collect_education (line # rest) education_v =
     collect_education rest (add_education_line education_keywords line education_v)"

text \<open>
  The loop over the lines for the experience:
  \<open>any(word in line.lower() for word in experience_keywords)\<close> is the test.
\<close>

fun collect_experience :: "string list \<Rightarrow> string list \<Rightarrow> string list" where
  "collect_experience [] experience_v = experience_v"
| "collect_experience (line # rest) experience_v =
     (if list_ex (\<lambda>word. py_in word (lower line)) experience_keywords
      then collect_experience rest (experience_v @ [strip line])
      else collect_experience rest experience_v)"

definition paragraphs :: "string \<Rightarrow> string list" where
  "paragraphs text = map strip (filter (\<lambda>p. length (strip p) > 50) (split_blank text))"

text \<open>
  \<open>list(set(xs))\<close>: the distinct elements of \<open>xs\<close>. Python leaves their order open; the
  model keeps one of the orders, and nothing below depends on which.
\<close>

definition list_of_set :: "'a list \<Rightarrow> 'a list" where
  "list_of_set xs = remdups xs"

definition extract_info :: "string \<Rightarrow> (string \<times> string) list \<Rightarrow> info" where
  "extract_info text ents =
     (let name_v = first_person ents [];
          email_match = re_search email_pattern text;
          phone_match = re_search phone_pattern text;
          email_v = group_or_empty email_match;
          phone_v = group_or_empty phone_match;
          skills_v = collect_skills sample_skills text [];
          education_v = collect_education (splitlines text) [];
          experience_v = collect_experience (splitlines text) [];
          ps = paragraphs text;
          summary_v = (case ps of [] \<Rightarrow> [] | p # _ \<Rightarrow> p)
      in \<lparr>info_name = name_v,
          info_email = email_v,
          info_phone = phone_v,
          info_skills = list_of_set skills_v,
          info_education = list_of_set education_v,
          info_experience = slice_to experience_v 5,
          info_summary = summary_v\<rparr>)"

definition short_text :: string where
  "short_text = ''My Role'' @ [CHR 0x0A] @ '' sql''"

text \<open>
  A text of seven lines, six of them with an experience keyword, some with whitespace
  around them and some with capitals.
\<close>

definition experience_text :: string where
  "experience_text =
     ''  Job A '' @ [CHR 0x0A] @ [CHR 0x09] @ ''Role B'' @ [CHR 0x0A] @ ''skills'' @ [CHR 0x0A]
       @ ''worked C  '' @ [CHR 0x0A] @ ''project D'' @ [CHR 0x0A] @ '' job E'' @ [CHR 0x0A]
       @ ''role F''"
section \<open>Properties of the string operations\<close>

lemma startswith_iff: "startswith s p \<longleftrightarrow> (\<exists>post. s = p @ post)"
  by (induction s p rule: startswith.induct) auto

lemma py_in_iff_substring: "py_in needle h \<longleftrightarrow> (\<exists>pre post. h = pre @ needle @ post)"
proof (induction h)
  case Nil
  then show ?case by auto
next
  case (Cons c cs)
  show ?case
  proof
    assume "py_in needle (c # cs)"
    then consider "startswith (c # cs) needle" | "py_in needle cs" by auto
    then show "\<exists>pre post. c # cs = pre @ needle @ post"
    proof cases
      case 1
      then obtain post where "c # cs = needle @ post" by (auto simp: startswith_iff)
      then have "c # cs = [] @ needle @ post" by simp
      then show ?thesis by blast
    next
      case 2
      then obtain pre post where "cs = pre @ needle @ post" using Cons.IH by blast
      then have "c # cs = (c # pre) @ needle @ post" by simp
      then show ?thesis by blast
    qed
  next
    assume "\<exists>pre post. c # cs = pre @ needle @ post"
    then obtain pre post where e: "c # cs = pre @ needle @ post" by blast
    show "py_in needle (c # cs)"
    proof (cases pre)
      case Nil
      with e have "startswith (c # cs) needle" by (auto simp: startswith_iff)
      then show ?thesis by simp
    next
      case (Cons p pre')
      with e have "cs = pre' @ needle @ post" by simp
      then have "py_in needle cs" using Cons.IH by blast
      then show ?thesis by simp
    qed
  qed
qed

lemma py_in_empty: "py_in [] h"
  by (cases h) auto

section \<open>Properties of scoring\<close>

lemma match_requirement_eq:
  "match_requirement req sk = (if \<exists>s \<in> set sk. py_in (lower req) (lower s) then 1 else 0)"
  by (induction sk) auto

lemma match_requirement_le: "match_requirement req sk \<le> 1"
  by (simp add: match_requirement_eq)

lemma count_matching_acc: "count_matching m reqs sk = m + count_matching 0 reqs sk"
proof (induction reqs arbitrary: m)
  case Nil
  then show ?case by simp
next
  case (Cons req reqs)
  have "count_matching m (req # reqs) sk = count_matching (m + match_requirement req sk) reqs sk"
    by simp
  also have "\<dots> = m + match_requirement req sk + count_matching 0 reqs sk"
    using Cons.IH by blast
  also have "\<dots> = m + count_matching (0 + match_requirement req sk) reqs sk"
    using Cons.IH [of "0 + match_requirement req sk"] by simp
  finally show ?case by simp
qed

lemma count_matching_filter:
  "count_matching 0 reqs sk
     = length (filter (\<lambda>req. \<exists>s \<in> set sk. py_in (lower req) (lower s)) reqs)"
proof (induction reqs)
  case Nil
  then show ?case by simp
next
  case (Cons req reqs)
  have "count_matching 0 (req # reqs) sk = match_requirement req sk + count_matching 0 reqs sk"
    using count_matching_acc [of "match_requirement req sk" reqs sk] by simp
  then show ?case using Cons.IH by (simp add: match_requirement_eq)
qed

lemma count_matching_le: "count_matching 0 reqs sk \<le> length reqs"
  by (simp add: count_matching_filter)

lemma contact_score_le: "contact_score r \<le> 10"
  by (simp add: contact_score_def)

lemma summary_score_le: "summary_score r \<le> 5"
  by (simp add: summary_score_def split: option.splits)

lemma base_score_le: "base_score r \<le> 100"
proof -
  have "skills_score r \<le> 30" by (simp add: skills_score_def)
  moreover have "exp_score r \<le> 35" by (simp add: exp_score_def)
  moreover have "edu_score r \<le> 20" by (simp add: edu_score_def)
  ultimately show ?thesis
    using contact_score_le [of r] summary_score_le [of r] by (simp add: base_score_def)
qed

lemma req_score_bounds: "0 \<le> req_score r reqs \<and> req_score r reqs \<le> 20"
proof (cases "reqs = []")
  case True
  then show ?thesis by (simp add: req_score_def)
next
  case False
  define q :: rat
    where "q = of_nat (count_matching 0 reqs (get_list (skills r))) / of_nat (length reqs)"
  have "(of_nat (count_matching 0 reqs (get_list (skills r))) :: rat) \<le> of_nat (length reqs)"
    using count_matching_le [of reqs "get_list (skills r)"] by (simp only: of_nat_le_iff)
  moreover have "(0::rat) < of_nat (length reqs)" using False by simp
  ultimately have "q \<le> 1" unfolding q_def by (simp add: divide_le_eq_1)
  moreover have "0 \<le> q" unfolding q_def by simp
  moreover have "req_score r reqs = q * 20" using False by (simp add: req_score_def q_def)
  ultimately show ?thesis by simp
qed

lemma crs_without:
  "\<not> truthy_list jr \<Longrightarrow> calculate_resume_score r jr =
     \<lparr>score = of_nat (base_score r), max_score = 100,
      percentage = (of_nat (base_score r) / 100) * 100,
      details = base_details r, grade = grade_of (of_nat (base_score r)) 100\<rparr>"
  by (simp add: calculate_resume_score_def Let_def)

lemma crs_with:
  "truthy_list jr \<Longrightarrow> calculate_resume_score r jr =
     \<lparr>score = of_nat (base_score r) + req_score r (get_list jr), max_score = 120,
      percentage = ((of_nat (base_score r) + req_score r (get_list jr)) / 120) * 100,
      details = base_details r @
        [Job_match_detail (req_score r (get_list jr))
           (count_matching 0 (get_list jr) (get_list (skills r))) (length (get_list jr))],
      grade = grade_of (of_nat (base_score r) + req_score r (get_list jr)) 120\<rparr>"
  by (simp add: calculate_resume_score_def Let_def)


lemma length_sample_skills_10: "length sample_skills_10 = 10"
  by (simp add: sample_skills_10_def)

lemma length_sample_experience_5: "length sample_experience_5 = 5"
  by (simp add: sample_experience_5_def)

lemma length_sample_summary: "length sample_summary = 56"
  by (simp add: sample_summary_def)

lemma sample_summary_nonempty: "sample_summary \<noteq> []"
  by (simp add: sample_summary_def)

lemma base_score_full_resume: "base_score full_resume = 100"
  by (simp add: base_score_def skills_score_def exp_score_def edu_score_def contact_score_def
      summary_score_def full_resume_def get_list_def truthy_str_def length_sample_skills_10
      length_sample_experience_5 length_sample_summary sample_summary_nonempty)

lemma base_score_strong_resume: "base_score strong_resume = 85"
  by (simp add: base_score_def skills_score_def exp_score_def edu_score_def contact_score_def
      summary_score_def strong_resume_def get_list_def truthy_str_def length_sample_skills_10
      length_sample_experience_5)

lemma lower_simps:
  "lower [] = []"
  "lower (c # cs) = lower_char c # lower cs"
  by (simp_all add: lower_def)

lemmas char_eval = lower_simps lower_char_def code_point_def Let_def char_of_def bit_Suc_0_iff

lemma match_python: "match_requirement ''python'' sample_skills_10 = 1"
  by (simp add: sample_skills_10_def char_eval)

lemma match_cobol: "match_requirement ''cobol'' sample_skills_10 = 0"
  by (simp add: sample_skills_10_def char_eval)

lemma skills_strong_resume: "skills strong_resume = Some sample_skills_10"
  by (simp add: strong_resume_def)

lemma skills_full_resume: "skills full_resume = Some sample_skills_10"
  by (simp add: full_resume_def)

lemma grade_of_percentage_eq:
  "0 < mx \<Longrightarrow> grade_of sc mx = grade_of_percentage ((sc / mx) * 100)"
  by (simp add: grade_of_def grade_of_percentage_def field_simps)

text \<open>
  Claim C1. Whatever the record and the job requirements, the score lies between 0 and
  \<open>max_score\<close>, which is 120 when a non-empty requirement list is given and 100 otherwise.
  One requirement adds at most one match, and it adds one exactly when some skill contains
  it case-insensitively, so that the number of matches is the number of requirements with
  such a skill; with requirements, the score is the base score plus
  \<open>(matches / |job_requirements|) * 20\<close>.
\<close>

theorem score_within_max:
  "0 \<le> score (calculate_resume_score r jr)
   \<and> score (calculate_resume_score r jr) \<le> max_score (calculate_resume_score r jr)
   \<and> max_score (calculate_resume_score r jr) = (if truthy_list jr then 120 else 100)
   \<and> match_requirement req sk \<le> 1
   \<and> (match_requirement req sk = 1 \<longleftrightarrow> (\<exists>s \<in> set sk. py_in (lower req) (lower s)))
   \<and> count_matching 0 reqs sk
       = length (filter (\<lambda>q. \<exists>s \<in> set sk. py_in (lower q) (lower s)) reqs)
   \<and> (truthy_list jr \<longrightarrow>
        score (calculate_resume_score r jr)
          = of_nat (base_score r)
            + (of_nat (count_matching 0 (get_list jr) (get_list (skills r)))
               / of_nat (length (get_list jr))) * 20)"
proof -
  have nonempty: "truthy_list jr \<Longrightarrow> get_list jr \<noteq> []"
    by (simp add: truthy_list_def get_list_def split: option.splits)
  have b: "(of_nat (base_score r) :: rat) \<le> 100"
    using base_score_le [of r] by (metis of_nat_le_iff of_nat_numeral)
  have b0: "(0::rat) \<le> of_nat (base_score r)" by simp
  show ?thesis
  proof (cases "truthy_list jr")
    case True
    then show ?thesis
      using b b0 req_score_bounds [of r "get_list jr"] nonempty
      by (simp add: crs_with match_requirement_eq count_matching_filter req_score_def)
  next
    case False
    then show ?thesis
      using b b0 by (simp add: crs_without match_requirement_eq count_matching_filter)
  qed
qed

theorem score_within_max_witness:
  "truthy_list (Some [''python'', ''cobol''])
   \<and> score (calculate_resume_score strong_resume (Some [''python'', ''cobol''])) = 95
   \<and> max_score (calculate_resume_score strong_resume (Some [''python'', ''cobol''])) = 120"
proof -
  have t: "truthy_list (Some [''python'', ''cobol''])" by (simp add: truthy_list_def)
  show ?thesis
    using t score_within_max [of strong_resume "Some [''python'', ''cobol'']" "''python''"
        sample_skills_10 "[''python'', ''cobol'']"]
    by (simp add: get_list_def skills_strong_resume match_python match_cobol
        base_score_strong_resume)
qed

text \<open>
  Claim C2. A record with exactly 10 skills, 5 experience entries and 2 education entries,
  a non-empty email, a non-empty phone and a summary of more than 50 characters, scored
  without job requirements, has score 100, percentage 100 and grade A.
\<close>

theorem full_record_scores_100:
  assumes "length (get_list (skills r)) = 10"
    and "length (get_list (experience r)) = 5"
    and "length (get_list (education r)) = 2"
    and "truthy_str (email r)"
    and "truthy_str (phone r)"
    and "summary r = Some s" and "length s > 50"
  shows "score (calculate_resume_score r None) = 100
    \<and> percentage (calculate_resume_score r None) = 100
    \<and> grade (calculate_resume_score r None) = Grade_A"
proof -
  have "base_score r = 100"
    using assms
    by (auto simp: base_score_def skills_score_def exp_score_def edu_score_def
        contact_score_def summary_score_def)
  then show ?thesis
    by (simp add: crs_without truthy_list_def grade_of_def)
qed

theorem full_record_scores_100_witness:
  "length (get_list (skills full_resume)) = 10
   \<and> length (get_list (experience full_resume)) = 5
   \<and> length (get_list (education full_resume)) = 2
   \<and> truthy_str (email full_resume) \<and> truthy_str (phone full_resume)
   \<and> summary full_resume = Some sample_summary \<and> length sample_summary > 50
   \<and> score (calculate_resume_score full_resume None) = 100
   \<and> percentage (calculate_resume_score full_resume None) = 100
   \<and> grade (calculate_resume_score full_resume None) = Grade_A"
proof -
  have h1: "length (get_list (skills full_resume)) = 10"
    by (simp add: full_resume_def get_list_def length_sample_skills_10)
  have h2: "length (get_list (experience full_resume)) = 5"
    by (simp add: full_resume_def get_list_def length_sample_experience_5)
  have h3: "length (get_list (education full_resume)) = 2"
    by (simp add: full_resume_def get_list_def)
  have h4: "truthy_str (email full_resume)" by (simp add: full_resume_def truthy_str_def)
  have h5: "truthy_str (phone full_resume)" by (simp add: full_resume_def truthy_str_def)
  have h6: "summary full_resume = Some sample_summary" by (simp add: full_resume_def)
  have h7: "length sample_summary > 50" by (simp add: length_sample_summary)
  show ?thesis
    using h1 h2 h3 h4 h5 h6 h7 full_record_scores_100 [OF h1 h2 h3 h4 h5 h6 h7] by simp
qed

text \<open>
  Claim C3, as stated: the grade with a non-empty requirement list equals the grade without
  one. It fails: a record with base score 85 has grade A without requirements (85 of 100)
  and grade B with the single unmatched requirement \<open>cobol\<close> (85 of 120).
\<close>

theorem grade_depends_on_requirements:
  "grade (calculate_resume_score strong_resume (Some [''cobol'']))
     \<noteq> grade (calculate_resume_score strong_resume None)"
proof -
  have "grade (calculate_resume_score strong_resume None) = Grade_A"
    by (simp add: crs_without truthy_list_def base_score_strong_resume grade_of_def)
  moreover have "grade (calculate_resume_score strong_resume (Some [''cobol''])) = Grade_B"
    by (simp add: crs_with truthy_list_def base_score_strong_resume grade_of_def req_score_def
        get_list_def skills_strong_resume match_cobol)
  ultimately show ?thesis by simp
qed

text \<open>
  Claim C3, amended. With or without requirements the grade is one and the same function
  of the percentage, taken against the possibly extended maximum: A from 80, B from 60,
  C from 40, D below. Hence the two grades agree whenever the two percentages do.
\<close>

theorem grade_is_function_of_percentage:
  "grade (calculate_resume_score r jr)
     = grade_of_percentage (percentage (calculate_resume_score r jr))
   \<and> (percentage (calculate_resume_score r jr) = percentage (calculate_resume_score r None)
        \<longrightarrow> grade (calculate_resume_score r jr) = grade (calculate_resume_score r None))"
proof -
  have g: "grade (calculate_resume_score r v)
     = grade_of_percentage (percentage (calculate_resume_score r v))" for v
  proof (cases "truthy_list v")
    case True
    then show ?thesis
      using grade_of_percentage_eq [of 120 "of_nat (base_score r) + req_score r (get_list v)"]
      by (simp add: crs_with)
  next
    case False
    then show ?thesis
      using grade_of_percentage_eq [of 100 "of_nat (base_score r)"]
      by (simp add: crs_without)
  qed
  show ?thesis using g [of jr] g [of None] by simp
qed

theorem grade_is_function_of_percentage_witness:
  "percentage (calculate_resume_score full_resume (Some [''python'']))
     = percentage (calculate_resume_score full_resume None)
   \<and> grade (calculate_resume_score full_resume (Some [''python''])) = Grade_A
   \<and> grade (calculate_resume_score full_resume None) = Grade_A"
proof -
  have p: "percentage (calculate_resume_score full_resume (Some [''python'']))
     = percentage (calculate_resume_score full_resume None)"
    by (simp add: crs_with crs_without truthy_list_def base_score_full_resume req_score_def
        get_list_def skills_full_resume match_python)
  have gn: "grade (calculate_resume_score full_resume None) = Grade_A"
    by (simp add: crs_without truthy_list_def base_score_full_resume grade_of_def)
  have e: "grade (calculate_resume_score full_resume (Some [''python'']))
     = grade (calculate_resume_score full_resume None)"
    using p grade_is_function_of_percentage [of full_resume "Some [''python'']"] by blast
  show ?thesis
    using p e gn by simp
qed

text \<open>
  Claim C9. When the record has at least one skill and the requirement list contains the
  empty string, that requirement is matched (by the first skill): every empty requirement
  counts one, so at least one requirement is matched, the bonus is positive and the score
  exceeds the base score.
\<close>

theorem empty_requirement_always_matches:
  assumes "get_list (skills r) \<noteq> []" and "[] \<in> set reqs"
  shows "match_requirement [] (get_list (skills r)) = 1
    \<and> count_matching 0 reqs (get_list (skills r))
        = length (filter (\<lambda>q. q = []) reqs)
          + count_matching 0 (filter (\<lambda>q. q \<noteq> []) reqs) (get_list (skills r))
    \<and> 1 \<le> count_matching 0 reqs (get_list (skills r))
    \<and> 0 < req_score r reqs
    \<and> score (calculate_resume_score r (Some reqs)) > of_nat (base_score r)"
proof -
  let ?sk = "get_list (skills r)"
  let ?P = "\<lambda>q. \<exists>s \<in> set ?sk. py_in (lower q) (lower s)"
  obtain s0 rest where sk: "?sk = s0 # rest" using assms(1) by (cases ?sk) auto
  have m: "match_requirement [] ?sk = 1"
    by (simp add: sk lower_def py_in_empty)
  have P: "?P []" using m by (simp add: match_requirement_eq split: if_splits)
  have split: "length (filter ?P reqs)
      = length (filter (\<lambda>q. q = []) reqs) + length (filter ?P (filter (\<lambda>q. q \<noteq> []) reqs))"
    using P by (induction reqs) auto
  have nonempty: "reqs \<noteq> []" using assms(2) by auto
  have "filter (\<lambda>q. q = []) reqs \<noteq> []" using assms(2) by (simp add: filter_empty_conv)
  then have pos: "1 \<le> length (filter (\<lambda>q. q = []) reqs)"
    by (cases "filter (\<lambda>q. q = []) reqs") auto
  have c: "count_matching 0 reqs ?sk
        = length (filter (\<lambda>q. q = []) reqs)
          + count_matching 0 (filter (\<lambda>q. q \<noteq> []) reqs) ?sk"
    using split by (simp add: count_matching_filter)
  have c1: "1 \<le> count_matching 0 reqs ?sk" using c pos by simp
  have "(0::rat) < of_nat (count_matching 0 reqs ?sk)" using c1 by simp
  moreover have "(0::rat) < of_nat (length reqs)" using nonempty by simp
  ultimately have rs: "0 < req_score r reqs" using nonempty by (simp add: req_score_def)
  have "score (calculate_resume_score r (Some reqs)) = of_nat (base_score r) + req_score r reqs"
    using nonempty by (simp add: crs_with truthy_list_def get_list_def)
  then show ?thesis using m c c1 rs by simp
qed

theorem empty_requirement_always_matches_witness:
  "get_list (skills strong_resume) \<noteq> [] \<and> [] \<in> set [''cobol'', []]
   \<and> count_matching 0 [''cobol'', []] (get_list (skills strong_resume)) = 1
   \<and> score (calculate_resume_score strong_resume (Some [''cobol'', []])) > 85"
proof -
  have h1: "get_list (skills strong_resume) \<noteq> []"
    by (simp add: skills_strong_resume get_list_def sample_skills_10_def)
  have h2: "[] \<in> set [''cobol'', []]" by simp
  show ?thesis
    using h1 h2 empty_requirement_always_matches [OF h1 h2]
    by (simp add: get_list_def skills_strong_resume match_cobol base_score_strong_resume)
qed


section \<open>Properties of the similarity search\<close>

lemma finite_skill_set: "finite (skill_set r)"
  by (simp add: skill_set_def)

lemma similarity_score_defined:
  "skill_set a \<union> skill_set b \<noteq> {} \<Longrightarrow>
     similarity_score (skill_set a) (skill_set b) = Inr (jaccard a b)"
  by (simp add: similarity_score_def truediv_def jaccard_def finite_skill_set)

lemma jaccard_nonneg: "0 \<le> jaccard a b"
  by (simp add: jaccard_def)

lemma jaccard_le_1: "jaccard a b \<le> 1"
proof -
  have "card (skill_set a \<inter> skill_set b) \<le> card (skill_set a \<union> skill_set b)"
    by (rule card_mono) (auto simp: finite_skill_set)
  then have "(of_nat (card (skill_set a \<inter> skill_set b)) :: rat)
      \<le> of_nat (card (skill_set a \<union> skill_set b))"
    by (simp only: of_nat_le_iff)
  then show ?thesis
    by (cases "card (skill_set a \<union> skill_set b) = 0") (simp_all add: jaccard_def divide_le_eq_1)
qed

lemma jaccard_sym: "jaccard a b = jaccard b a"
  by (simp add: jaccard_def Int_commute Un_commute)

lemma jaccard_self: "skill_set a \<noteq> {} \<Longrightarrow> jaccard a a = 1"
  by (simp add: jaccard_def finite_skill_set)

lemma jaccard_empty_right: "skill_set b = {} \<Longrightarrow> jaccard a b = 0"
  by (simp add: jaccard_def)

lemma jaccard_pos_iff:
  "0 < jaccard a b \<longleftrightarrow> skill_set a \<inter> skill_set b \<noteq> {}"
proof
  assume "0 < jaccard a b"
  then show "skill_set a \<inter> skill_set b \<noteq> {}"
    by (auto simp: jaccard_def)
next
  assume ne: "skill_set a \<inter> skill_set b \<noteq> {}"
  then have "0 < card (skill_set a \<inter> skill_set b)"
    by (simp add: card_gt_0_iff finite_skill_set)
  moreover have "0 < card (skill_set a \<union> skill_set b)"
    using ne by (auto simp: card_gt_0_iff finite_skill_set)
  ultimately show "0 < jaccard a b"
    by (simp add: jaccard_def)
qed

lemma collect_similarities_eq:
  "skill_set ref \<noteq> {} \<Longrightarrow>
     collect_similarities (skill_set ref) rs acc
       = Inr (acc @ map (ranking_entry ref) (filter (\<lambda>r. 0 < jaccard ref r) rs))"
proof (induction rs arbitrary: acc)
  case Nil
  then show ?case by simp
next
  case (Cons r rs)
  show ?case
  proof (cases "skill_set r = {}")
    case True
    then show ?thesis
      using Cons by (simp add: jaccard_empty_right)
  next
    case False
    then have "similarity_score (skill_set ref) (skill_set r) = Inr (jaccard ref r)"
      by (simp add: similarity_score_defined)
    then show ?thesis
      using False Cons by (simp add: ranking_entry_def)
  qed
qed

lemma find_similar_resumes_eq:
  assumes "find_one collection object_id = Some ref" and "skill_set ref \<noteq> {}"
  shows "find_similar_resumes collection object_id limit =
     (let top = slice_to (sort_by_score_desc (map (ranking_entry ref)
                  (filter (\<lambda>r. 0 < jaccard ref r) (find_others collection object_id)))) limit
      in if top = [] then No_similar_found else Similar_resumes top)"
  using assms by (simp add: find_similar_resumes_def collect_similarities_eq Let_def)

lemma find_similar_resumes_no_error:
  "find_similar_resumes collection object_id limit \<noteq> Error_finding e"
proof (cases "find_one collection object_id")
  case None
  then show ?thesis by (simp add: find_similar_resumes_def)
next
  case (Some ref)
  show ?thesis
  proof (cases "skill_set ref = {}")
    case True
    then show ?thesis using Some by (simp add: find_similar_resumes_def)
  next
    case False
    then show ?thesis
      using Some by (simp add: find_similar_resumes_eq Let_def)
  qed
qed

lemma set_slice_to: "set (slice_to xs limit) \<subseteq> set xs"
  by (auto simp: slice_to_def dest: in_set_takeD)

lemma sorted_desc:
  "sorted (rev (map sim_score (sort_by_score_desc xs)))"
proof -
  have "sorted (map (\<lambda>x. - sim_score x) (sort_by_score_desc xs))"
    by (simp add: sort_by_score_desc_def)
  then have "sorted_wrt (\<lambda>x y. sim_score y \<le> sim_score x) (sort_by_score_desc xs)"
    by (simp add: sorted_map)
  then have "sorted_wrt (\<lambda>x y. y \<le> x) (map sim_score (sort_by_score_desc xs))"
    by (simp add: sorted_wrt_map)
  then show ?thesis
    by (simp add: sorted_wrt_rev)
qed

lemma stable_desc:
  "filter (\<lambda>e. sim_score e = k) (sort_by_score_desc xs) = filter (\<lambda>e. sim_score e = k) xs"
proof -
  have "filter (\<lambda>e. - sim_score e = - k) (sort_by_score_desc xs)
      = filter (\<lambda>e. - sim_score e = - k) xs"
    unfolding sort_by_score_desc_def by (rule sort_key_stable)
  then show ?thesis by simp
qed


lemma skill_set_ann: "skill_set ann = {''Python'', ''SQL''}"
  by (simp add: ann_def skill_set_def get_list_def)

lemma skill_set_ben: "skill_set ben = {''Python'', ''Java''}"
  by (simp add: ben_def skill_set_def get_list_def)

lemma skill_set_cy: "skill_set cy = {}"
  by (simp add: cy_def skill_set_def get_list_def)

lemma find_one_ann: "find_one [ann, ben, cy] ''a'' = Some ann"
  by (simp add: find_one_def ann_def)

lemma find_one_cy: "find_one [ann, ben, cy] ''c'' = Some cy"
  by (simp add: find_one_def ann_def ben_def cy_def)

text \<open>
  Claim C4. For two records whose skill sets have a non-empty union, the score that the
  search computes is the Jaccard index (intersection size over union size); it lies
  between 0 and 1 and is the same in both directions. A record with a non-empty skill set
  has similarity 1 to itself. A reference record without skills ends the search with the
  message that it has no skills, a record without skills never appears in a result, and
  the search never ends in an error.
\<close>

theorem jaccard_similarity:
  "(skill_set a \<union> skill_set b \<noteq> {} \<longrightarrow>
      similarity_score (skill_set a) (skill_set b) = Inr (jaccard a b)
      \<and> similarity_score (skill_set b) (skill_set a) = Inr (jaccard a b)
      \<and> 0 \<le> jaccard a b \<and> jaccard a b \<le> 1)
   \<and> jaccard a b = jaccard b a
   \<and> (skill_set a \<noteq> {} \<longrightarrow> similarity_score (skill_set a) (skill_set a) = Inr 1)
   \<and> (skill_set a = {} \<and> find_one collection object_id = Some a \<longrightarrow>
        find_similar_resumes collection object_id limit = Reference_no_skills)
   \<and> (skill_set b = {} \<longrightarrow>
        (\<forall>sims. find_similar_resumes collection object_id limit = Similar_resumes sims
           \<longrightarrow> b \<notin> sim_resume ` set sims))
   \<and> find_similar_resumes collection object_id limit \<noteq> Error_finding e"
proof -
  have 1: "skill_set a \<union> skill_set b \<noteq> {} \<longrightarrow>
      similarity_score (skill_set a) (skill_set b) = Inr (jaccard a b)
      \<and> similarity_score (skill_set b) (skill_set a) = Inr (jaccard a b)
      \<and> 0 \<le> jaccard a b \<and> jaccard a b \<le> 1"
    using similarity_score_defined [of a b] similarity_score_defined [of b a]
    by (auto simp: jaccard_nonneg jaccard_le_1 jaccard_sym [of b a] Un_commute)
  have 3: "skill_set a \<noteq> {} \<longrightarrow> similarity_score (skill_set a) (skill_set a) = Inr 1"
    using similarity_score_defined [of a a] by (simp add: jaccard_self)
  have 4: "skill_set a = {} \<and> find_one collection object_id = Some a \<longrightarrow>
        find_similar_resumes collection object_id limit = Reference_no_skills"
    by (simp add: find_similar_resumes_def)
  have 5: "b \<notin> sim_resume ` set sims"
    if e: "skill_set b = {}"
      and r: "find_similar_resumes collection object_id limit = Similar_resumes sims" for sims
  proof (cases "find_one collection object_id")
    case None
    then show ?thesis using r by (simp add: find_similar_resumes_def)
  next
    case (Some ref)
    show ?thesis
    proof (cases "skill_set ref = {}")
      case True
      then show ?thesis using r Some by (simp add: find_similar_resumes_def)
    next
      case False
      let ?cands = "filter (\<lambda>r. 0 < jaccard ref r) (find_others collection object_id)"
      have "sims = slice_to (sort_by_score_desc (map (ranking_entry ref) ?cands)) limit"
        using r find_similar_resumes_eq [OF Some False, of limit]
        by (simp add: Let_def split: if_splits)
      then have "set sims \<subseteq> set (map (ranking_entry ref) ?cands)"
        using set_slice_to [of "sort_by_score_desc (map (ranking_entry ref) ?cands)" limit]
        by (simp add: sort_by_score_desc_def)
      then have "sim_resume ` set sims \<subseteq> set ?cands"
        by (auto simp: ranking_entry_def)
      moreover have "b \<notin> set ?cands"
        using e by (simp add: jaccard_empty_right)
      ultimately show ?thesis by blast
    qed
  qed
  show ?thesis
    using 1 3 4 5 jaccard_sym [of a b] find_similar_resumes_no_error [of collection object_id limit e]
    by blast
qed

theorem jaccard_similarity_witness:
  "skill_set ann \<union> skill_set ben \<noteq> {}
   \<and> similarity_score (skill_set ann) (skill_set ben) = Inr (1 / 3)
   \<and> similarity_score (skill_set ben) (skill_set ann) = Inr (1 / 3)
   \<and> skill_set ann \<noteq> {}
   \<and> similarity_score (skill_set ann) (skill_set ann) = Inr 1
   \<and> skill_set cy = {} \<and> find_one [ann, ben, cy] ''c'' = Some cy
   \<and> find_similar_resumes [ann, ben, cy] ''c'' 3 = Reference_no_skills"
proof -
  have h1: "skill_set ann \<union> skill_set ben \<noteq> {}" by (simp add: skill_set_ann)
  have h2: "skill_set ann \<noteq> {}" by (simp add: skill_set_ann)
  have j: "jaccard ann ben = 1 / 3"
    by code_simp
  show ?thesis
    using h1 h2 j skill_set_cy find_one_cy
      jaccard_similarity [of ann ben "[ann, ben, cy]" "''c''" 3 ZeroDivisionError]
      jaccard_similarity [of cy ben "[ann, ben, cy]" "''c''" 3 ZeroDivisionError]
    by simp
qed



lemma slice_to_nonneg: "0 \<le> limit \<Longrightarrow> slice_to xs limit = take (nat limit) xs"
  by (simp add: slice_to_def)

lemma map_sim_resume_entries: "map sim_resume (map (ranking_entry ref) xs) = xs"
  by (induction xs) (simp_all add: ranking_entry_def)

lemma mset_ranked:
  "mset (map sim_resume (sort_by_score_desc (map (ranking_entry ref) cands))) = mset cands"
proof -
  have "mset (sort_by_score_desc (map (ranking_entry ref) cands))
      = mset (map (ranking_entry ref) cands)"
    by (simp add: sort_by_score_desc_def)
  then have "image_mset sim_resume (mset (sort_by_score_desc (map (ranking_entry ref) cands)))
      = image_mset sim_resume (mset (map (ranking_entry ref) cands))"
    by (rule arg_cong)
  then have "mset (map sim_resume (sort_by_score_desc (map (ranking_entry ref) cands)))
      = mset (map sim_resume (map (ranking_entry ref) cands))"
    by (simp only: mset_map)
  then show ?thesis
    by (simp only: map_sim_resume_entries)
qed

lemma ranked_scores:
  "e \<in> set (sort_by_score_desc (map (ranking_entry ref) cands)) \<Longrightarrow>
     sim_score e = jaccard ref (sim_resume e)"
  by (auto simp: sort_by_score_desc_def ranking_entry_def)

lemma filter_entries:
  "filter (\<lambda>e. sim_score e = k) (map (ranking_entry ref) cands)
      = map (ranking_entry ref) (filter (\<lambda>r. jaccard ref r = k) cands)"
  by (induction cands) (simp_all add: ranking_entry_def)

lemma ranked_ties:
  "map sim_resume (filter (\<lambda>e. sim_score e = k)
       (sort_by_score_desc (map (ranking_entry ref) cands)))
     = filter (\<lambda>r. jaccard ref r = k) cands"
  by (simp only: stable_desc filter_entries map_sim_resume_entries)


lemma candidates_eq:
  "filter (\<lambda>r. 0 < jaccard ref r) (find_others collection object_id)
     = filter (\<lambda>r. oid r \<noteq> object_id \<and> 0 < jaccard ref r) collection"
  by (induction collection) (simp_all add: find_others_def)

lemma ties_filter_eq:
  "filter (\<lambda>r. jaccard ref r = k)
       (filter (\<lambda>r. oid r \<noteq> object_id \<and> 0 < jaccard ref r) collection)
     = filter (\<lambda>r. oid r \<noteq> object_id \<and> 0 < jaccard ref r \<and> jaccard ref r = k) collection"
  by (induction collection) simp_all

text \<open>
  Claim C5. For a reference record that is found and has skills, the search returns the
  ranked candidates cut to the requested number: the candidates are exactly the records
  other than the reference whose Jaccard similarity to it is positive, each with that
  similarity as its score, in descending order of score, and records of equal score keep
  the order they have in the corpus. A non-negative limit keeps that many leading entries.
\<close>

theorem similar_ranking:
  assumes "find_one collection object_id = Some ref" and "skill_set ref \<noteq> {}"
  shows "find_similar_resumes collection object_id limit
        = (if slice_to (ranked_candidates ref object_id collection) limit = []
           then No_similar_found
           else Similar_resumes (slice_to (ranked_candidates ref object_id collection) limit))
      \<and> (0 \<le> limit \<longrightarrow>
           slice_to (ranked_candidates ref object_id collection) limit
             = take (nat limit) (ranked_candidates ref object_id collection))
      \<and> mset (map sim_resume (ranked_candidates ref object_id collection))
          = mset (filter (\<lambda>r. oid r \<noteq> object_id \<and> 0 < jaccard ref r) collection)
      \<and> (\<forall>e \<in> set (ranked_candidates ref object_id collection).
            sim_score e = jaccard ref (sim_resume e))
      \<and> sorted (rev (map sim_score (ranked_candidates ref object_id collection)))
      \<and> (\<forall>k. map sim_resume
              (filter (\<lambda>e. sim_score e = k) (ranked_candidates ref object_id collection))
            = filter (\<lambda>r. oid r \<noteq> object_id \<and> 0 < jaccard ref r \<and> jaccard ref r = k)
                collection)"
proof (intro conjI allI ballI impI)
  show "find_similar_resumes collection object_id limit
        = (if slice_to (ranked_candidates ref object_id collection) limit = []
           then No_similar_found
           else Similar_resumes (slice_to (ranked_candidates ref object_id collection) limit))"
    using find_similar_resumes_eq [OF assms, of limit]
    by (simp only: Let_def candidates_eq ranked_candidates_def)
next
  assume "0 \<le> limit"
  then show "slice_to (ranked_candidates ref object_id collection) limit
             = take (nat limit) (ranked_candidates ref object_id collection)"
    by (rule slice_to_nonneg)
next
  show "mset (map sim_resume (ranked_candidates ref object_id collection))
          = mset (filter (\<lambda>r. oid r \<noteq> object_id \<and> 0 < jaccard ref r) collection)"
    unfolding ranked_candidates_def by (rule mset_ranked)
next
  fix e
  assume "e \<in> set (ranked_candidates ref object_id collection)"
  then show "sim_score e = jaccard ref (sim_resume e)"
    unfolding ranked_candidates_def by (rule ranked_scores)
next
  show "sorted (rev (map sim_score (ranked_candidates ref object_id collection)))"
    unfolding ranked_candidates_def by (rule sorted_desc)
next
  fix k
  show "map sim_resume
              (filter (\<lambda>e. sim_score e = k) (ranked_candidates ref object_id collection))
            = filter (\<lambda>r. oid r \<noteq> object_id \<and> 0 < jaccard ref r \<and> jaccard ref r = k)
                collection"
    unfolding ranked_candidates_def by (simp only: ranked_ties ties_filter_eq)
qed


lemma find_one_sample: "find_one sample_corpus ''a'' = Some ann"
  by (simp add: find_one_def sample_corpus_def ann_def)

lemma ranked_sample:
  "map (\<lambda>e. (oid (sim_resume e), sim_score e)) (ranked_candidates ann ''a'' sample_corpus)
     = [(''d'', 1), (''b'', 1 / 3), (''e'', 1 / 3)]"
  by code_simp


theorem similar_ranking_witness:
  "find_one sample_corpus ''a'' = Some ann \<and> skill_set ann \<noteq> {}
   \<and> find_similar_resumes sample_corpus ''a'' 2
        = Similar_resumes (take 2 (ranked_candidates ann ''a'' sample_corpus))
   \<and> map (\<lambda>e. (oid (sim_resume e), sim_score e)) (ranked_candidates ann ''a'' sample_corpus)
       = [(''d'', 1), (''b'', 1 / 3), (''e'', 1 / 3)]"
proof -
  have h1: "find_one sample_corpus ''a'' = Some ann" by (rule find_one_sample)
  have h2: "skill_set ann \<noteq> {}" by (simp add: skill_set_ann)
  have "length (map (\<lambda>e. (oid (sim_resume e), sim_score e))
          (ranked_candidates ann ''a'' sample_corpus))
      = length [(''d'', 1::rat), (''b'', 1 / 3), (''e'', 1 / 3)]"
    using ranked_sample by (rule arg_cong)
  then have len: "length (ranked_candidates ann ''a'' sample_corpus) = 3" by simp
  have ne: "take 2 (ranked_candidates ann ''a'' sample_corpus) \<noteq> []"
    using len by (cases "ranked_candidates ann ''a'' sample_corpus") simp_all
  have r: "find_similar_resumes sample_corpus ''a'' 2
        = (if slice_to (ranked_candidates ann ''a'' sample_corpus) 2 = []
           then No_similar_found
           else Similar_resumes (slice_to (ranked_candidates ann ''a'' sample_corpus) 2))"
    using similar_ranking [OF h1 h2, of 2] by (rule conjunct1)
  have s: "slice_to (ranked_candidates ann ''a'' sample_corpus) 2
      = take 2 (ranked_candidates ann ''a'' sample_corpus)"
    by (simp add: slice_to_def)
  have "find_similar_resumes sample_corpus ''a'' 2
        = Similar_resumes (take 2 (ranked_candidates ann ''a'' sample_corpus))"
    using r ne by (simp only: s if_False)
  then show ?thesis
    using h1 h2 ranked_sample by (intro conjI)
qed

section \<open>Properties of the corpus statistics\<close>

lemma percent_of_defined:
  "0 < n \<Longrightarrow> percent_of c n = Inr (of_nat c / of_nat n * 100)"
  by (simp add: percent_of_def truediv_def)

lemma completeness_of_defined:
  "0 < total_resumes stats \<Longrightarrow> \<exists>pcts. completeness_of stats = Inr pcts"
  by (simp add: completeness_of_def percent_of_defined)

lemma get_database_stats_nonempty:
  assumes "collection \<noteq> []"
  shows "\<exists>pcts avgs. get_database_stats collection
           = Statistics (collect_stats collection) pcts (Some avgs)"
proof -
  have "0 < total_resumes (collect_stats collection)"
    using assms by (simp add: collect_stats_def)
  then obtain pcts where "completeness_of (collect_stats collection) = Inr pcts"
    using completeness_of_defined by blast
  then show ?thesis
    using assms by (simp add: get_database_stats_def Let_def aggregate_averages_def)
qed

text \<open>
  Claim C7, as stated: on an empty corpus the statistics operation returns all counts 0
  and all averages 0.0. It fails: the operation returns the text \<open>Database is empty.\<close>,
  which is no report at all.
\<close>

theorem empty_corpus_gives_no_report:
  "get_database_stats [] \<noteq> zero_report \<and> \<not> is_report (get_database_stats [])"
  by (simp add: get_database_stats_def zero_report_def is_report_def)

text \<open>
  Claim C7, amended. On an empty corpus the statistics operation returns the text
  \<open>Database is empty.\<close> and computes no count, percentage or average; this is the
  explicit guard on a zero total, it is taken for the empty corpus only, and no corpus
  makes the operation end in a division error.
\<close>

theorem empty_corpus_guarded:
  "get_database_stats [] = Database_is_empty
   \<and> get_database_stats collection \<noteq> Stats_error e
   \<and> (get_database_stats collection = Database_is_empty \<longleftrightarrow> collection = [])"
proof (cases "collection = []")
  case True
  then show ?thesis by (simp add: get_database_stats_def)
next
  case False
  then obtain pcts avgs where
    "get_database_stats collection = Statistics (collect_stats collection) pcts (Some avgs)"
    using get_database_stats_nonempty by blast
  then show ?thesis
    using False by (simp add: get_database_stats_def)
qed

theorem empty_corpus_guarded_witness:
  "get_database_stats [ann, ben, cy] \<noteq> Database_is_empty
   \<and> get_database_stats [ann, ben, cy] \<noteq> Stats_error ZeroDivisionError"
  using empty_corpus_guarded [of "[ann, ben, cy]" ZeroDivisionError] by simp

section \<open>Properties of the extraction\<close>

lemma collect_skills_eq:
  "collect_skills toks text acc = acc @ filter (\<lambda>tok. py_in (lower tok) (lower text)) toks"
  by (induction toks arbitrary: acc) simp_all

lemma collect_experience_eq:
  "collect_experience lines acc
     = acc @ map strip
         (filter (\<lambda>line. list_ex (\<lambda>word. py_in word (lower line)) experience_keywords) lines)"
  by (induction lines arbitrary: acc) simp_all

lemma lower_experience_keywords: "\<forall>w \<in> set experience_keywords. lower w = w"
  by (simp add: experience_keywords_def char_eval)

lemma experience_test:
  "list_ex (\<lambda>word. py_in word (lower line)) experience_keywords
     \<longleftrightarrow> (\<exists>w \<in> set experience_keywords. py_in (lower w) (lower line))"
  using lower_experience_keywords by (simp add: list_ex_iff)

lemma distinct_sample_skills: "distinct sample_skills"
  by (simp add: sample_skills_def)

lemma length_sample_skills: "length sample_skills = 23"
  by (simp add: sample_skills_def)


lemma info_experience_eq:
  "info_experience (extract_info text ents)
     = take 5 (map strip
         (filter (\<lambda>line. \<exists>w \<in> set experience_keywords. py_in (lower w) (lower line))
            (splitlines text)))"
  by (simp add: extract_info_def Let_def collect_experience_eq slice_to_def experience_test)

lemma info_skills_eq:
  "info_skills (extract_info text ents)
     = remdups (filter (\<lambda>tok. py_in (lower tok) (lower text)) sample_skills)"
  by (simp add: extract_info_def Let_def collect_skills_eq list_of_set_def)

lemma dropWhile_hd: "xs \<noteq> [] \<Longrightarrow> \<not> P (hd xs) \<Longrightarrow> dropWhile P xs = xs"
  by (cases xs) simp_all

lemma strip_trims:
  "\<exists>pre post. line = pre @ strip line @ post
      \<and> (\<forall>c \<in> set pre. is_space c) \<and> (\<forall>c \<in> set post. is_space c)
      \<and> (strip line = [] \<or> \<not> is_space (hd (strip line)) \<and> \<not> is_space (last (strip line)))"
proof -
  define t where "t = dropWhile is_space line"
  define e where "e = rev (dropWhile is_space (rev t))"
  define post where "post = rev (takeWhile is_space (rev t))"
  have l: "line = takeWhile is_space line @ t" by (simp add: t_def)
  have "e @ post = rev (takeWhile is_space (rev t) @ dropWhile is_space (rev t))"
    unfolding e_def post_def by (rule rev_append [symmetric])
  also have "\<dots> = rev (rev t)" by (simp only: takeWhile_dropWhile_id)
  also have "\<dots> = t" by (rule rev_rev_ident)
  finally have t: "t = e @ post" by (rule sym)
  have pre: "\<forall>c \<in> set (takeWhile is_space line). is_space c" by (auto dest: set_takeWhileD)
  have po: "\<forall>c \<in> set post. is_space c" by (auto simp: post_def dest: set_takeWhileD)
  have ends: "e = [] \<or> \<not> is_space (hd e) \<and> \<not> is_space (last e)"
  proof (cases "e = []")
    case True
    then show ?thesis by simp
  next
    case False
    then have d: "dropWhile is_space (rev t) \<noteq> []" by (simp add: e_def)
    then have "\<not> is_space (hd (dropWhile is_space (rev t)))" by (rule hd_dropWhile)
    moreover have "last e = hd (dropWhile is_space (rev t))" using d by (simp add: e_def last_rev)
    ultimately have la: "\<not> is_space (last e)" by simp
    have tn: "t \<noteq> []" using False t by auto
    then have "\<not> is_space (hd t)" unfolding t_def by (rule hd_dropWhile)
    moreover have "hd t = hd e" using t False by simp
    ultimately show ?thesis using la by simp
  qed
  have s: "strip line = e" by (simp add: strip_def e_def t_def)
  have "line = takeWhile is_space line @ e @ post" using l t by simp
  then have "line = takeWhile is_space line @ strip line @ post
        \<and> (\<forall>c \<in> set (takeWhile is_space line). is_space c) \<and> (\<forall>c \<in> set post. is_space c)
        \<and> (strip line = [] \<or> \<not> is_space (hd (strip line)) \<and> \<not> is_space (last (strip line)))"
    using pre po ends unfolding s by simp
  then show ?thesis by (intro exI)
qed

lemma trimmed_is_strip:
  assumes l: "line = pre @ e @ post"
    and pre: "\<forall>c \<in> set pre. is_space c" and po: "\<forall>c \<in> set post. is_space c"
    and ends: "e = [] \<or> \<not> is_space (hd e) \<and> \<not> is_space (last e)"
  shows "strip line = e"
proof -
  have d1: "dropWhile is_space line = dropWhile is_space (e @ post)"
    using pre by (simp add: l dropWhile_append2)
  show ?thesis
  proof (cases "e = []")
    case True
    then have "\<forall>c \<in> set line. is_space c" using l pre po by auto
    then have dl: "dropWhile is_space line = []" by (simp only: dropWhile_eq_Nil_conv)
    show ?thesis unfolding strip_def dl True by simp
  next
    case False
    then have h: "\<not> is_space (hd e)" and la: "\<not> is_space (last e)" using ends by simp_all
    have "dropWhile is_space (e @ post) = e @ post"
      using False h by (intro dropWhile_hd) simp_all
    then have d2: "dropWhile is_space line = e @ post" using d1 by simp
    have "dropWhile is_space (rev post @ rev e) = dropWhile is_space (rev e)"
      by (rule dropWhile_append2) (use po in simp)
    moreover have "dropWhile is_space (rev e) = rev e"
      using False la by (intro dropWhile_hd) (simp_all add: hd_rev)
    ultimately have "dropWhile is_space (rev (e @ post)) = rev e" by simp
    then show ?thesis by (simp add: strip_def d2)
  qed
qed

lemma strip_iff:
  "strip line = e
     \<longleftrightarrow> (\<exists>pre post. line = pre @ e @ post
            \<and> (\<forall>c \<in> set pre. is_space c) \<and> (\<forall>c \<in> set post. is_space c)
            \<and> (e = [] \<or> \<not> is_space (hd e) \<and> \<not> is_space (last e)))"
proof
  assume "strip line = e"
  then show "\<exists>pre post. line = pre @ e @ post
            \<and> (\<forall>c \<in> set pre. is_space c) \<and> (\<forall>c \<in> set post. is_space c)
            \<and> (e = [] \<or> \<not> is_space (hd e) \<and> \<not> is_space (last e))"
    using strip_trims [of line] by simp
next
  assume "\<exists>pre post. line = pre @ e @ post
            \<and> (\<forall>c \<in> set pre. is_space c) \<and> (\<forall>c \<in> set post. is_space c)
            \<and> (e = [] \<or> \<not> is_space (hd e) \<and> \<not> is_space (last e))"
  then obtain pre post where "line = pre @ e @ post"
    "\<forall>c \<in> set pre. is_space c" "\<forall>c \<in> set post. is_space c"
    "e = [] \<or> \<not> is_space (hd e) \<and> \<not> is_space (last e)"
    by blast
  then show "strip line = e" by (rule trimmed_is_strip)
qed

lemma splitlines_experience_text:
  "splitlines experience_text
     = [''  Job A '', [CHR 0x09] @ ''Role B'', ''skills'', ''worked C  '', ''project D'',
        '' job E'', ''role F'']"
  by (simp add: experience_text_def splitlines_def is_linebreak_def code_point_def)

lemma filter_experience_text:
  "filter (\<lambda>line. \<exists>w \<in> set experience_keywords. py_in (lower w) (lower line))
     [''  Job A '', [CHR 0x09] @ ''Role B'', ''skills'', ''worked C  '', ''project D'',
        '' job E'', ''role F'']
   = [''  Job A '', [CHR 0x09] @ ''Role B'', ''worked C  '', ''project D'', '' job E'', ''role F'']"
  by (simp add: experience_keywords_def char_eval)

lemma strip_experience_lines:
  "map strip [''  Job A '', [CHR 0x09] @ ''Role B'', ''worked C  '', ''project D'', '' job E'', ''role F'']
     = [''Job A'', ''Role B'', ''worked C'', ''project D'', ''job E'', ''role F'']"
  by (simp add: strip_def is_space_def code_point_def)

text \<open>
  Claim C6. Whatever the text and the entities, the experience of the extracted record
  has at most 5 entries: the first 5, in line order, of the trimmed lines of the text
  that contain an experience keyword case-insensitively. Every entry is such a line.
  Trimming a line gives the one part of it that neither begins nor ends with whitespace
  and has only whitespace before it and after it in the line, and containing a keyword is
  having it as a substring.
\<close>

theorem experience_first_five:
  "length (info_experience (extract_info text ents)) \<le> 5
   \<and> info_experience (extract_info text ents)
       = take 5 (map strip
           (filter (\<lambda>line. \<exists>w \<in> set experience_keywords. py_in (lower w) (lower line))
              (splitlines text)))
   \<and> (\<forall>e \<in> set (info_experience (extract_info text ents)).
        \<exists>line \<in> set (splitlines text). e = strip line
          \<and> (\<exists>w \<in> set experience_keywords. \<exists>pre post. lower line = pre @ lower w @ post))
   \<and> (\<forall>line e. strip line = e
         \<longleftrightarrow> (\<exists>pre post. line = pre @ e @ post
                \<and> (\<forall>c \<in> set pre. is_space c) \<and> (\<forall>c \<in> set post. is_space c)
                \<and> (e = [] \<or> \<not> is_space (hd e) \<and> \<not> is_space (last e))))
   \<and> (\<forall>w line. py_in w line \<longleftrightarrow> (\<exists>pre post. line = pre @ w @ post))"
proof (intro conjI ballI allI)
  show "length (info_experience (extract_info text ents)) \<le> 5"
    by (simp add: info_experience_eq)
  show "info_experience (extract_info text ents)
       = take 5 (map strip
           (filter (\<lambda>line. \<exists>w \<in> set experience_keywords. py_in (lower w) (lower line))
              (splitlines text)))"
    by (rule info_experience_eq)
  show "strip line = e
         \<longleftrightarrow> (\<exists>pre post. line = pre @ e @ post
                \<and> (\<forall>c \<in> set pre. is_space c) \<and> (\<forall>c \<in> set post. is_space c)
                \<and> (e = [] \<or> \<not> is_space (hd e) \<and> \<not> is_space (last e)))" for line e
    by (rule strip_iff)
  show "py_in w line \<longleftrightarrow> (\<exists>pre post. line = pre @ w @ post)" for w line
    by (rule py_in_iff_substring)
next
  fix e
  assume "e \<in> set (info_experience (extract_info text ents))"
  then have "e \<in> set (map strip
           (filter (\<lambda>line. \<exists>w \<in> set experience_keywords. py_in (lower w) (lower line))
              (splitlines text)))"
    unfolding info_experience_eq by (rule in_set_takeD)
  then obtain line where l: "line \<in> set (splitlines text)" "e = strip line"
    and "\<exists>w \<in> set experience_keywords. py_in (lower w) (lower line)"
    by auto
  then have "\<exists>w \<in> set experience_keywords. \<exists>pre post. lower line = pre @ lower w @ post"
    by (simp add: py_in_iff_substring)
  with l show "\<exists>line \<in> set (splitlines text). e = strip line
          \<and> (\<exists>w \<in> set experience_keywords. \<exists>pre post. lower line = pre @ lower w @ post)"
    by blast
qed

theorem experience_first_five_witness:
  "info_experience (extract_info experience_text [])
     = [''Job A'', ''Role B'', ''worked C'', ''project D'', ''job E'']
   \<and> splitlines experience_text
       = [''  Job A '', [CHR 0x09] @ ''Role B'', ''skills'', ''worked C  '', ''project D'',
          '' job E'', ''role F'']
   \<and> strip ''worked C  '' = ''worked C''
   \<and> (\<exists>line w pre post. line \<in> set (splitlines experience_text) \<and> ''job E'' = strip line
          \<and> w \<in> set experience_keywords \<and> lower line = pre @ lower w @ post)"
proof -
  note t = experience_first_five [of experience_text "[]"]
  have "info_experience (extract_info experience_text [])
       = take 5 (map strip
           (filter (\<lambda>line. \<exists>w \<in> set experience_keywords. py_in (lower w) (lower line))
              (splitlines experience_text)))"
    by (rule t [THEN conjunct2, THEN conjunct1])
  then have v: "info_experience (extract_info experience_text [])
     = [''Job A'', ''Role B'', ''worked C'', ''project D'', ''job E'']"
    by (simp only: splitlines_experience_text filter_experience_text strip_experience_lines)
      simp
  have "\<forall>e \<in> set (info_experience (extract_info experience_text [])).
        \<exists>line \<in> set (splitlines experience_text). e = strip line
          \<and> (\<exists>w \<in> set experience_keywords. \<exists>pre post. lower line = pre @ lower w @ post)"
    by (rule t [THEN conjunct2, THEN conjunct2, THEN conjunct1])
  moreover have "''job E'' \<in> set (info_experience (extract_info experience_text []))"
    unfolding v by simp
  ultimately have "\<exists>line \<in> set (splitlines experience_text). ''job E'' = strip line
          \<and> (\<exists>w \<in> set experience_keywords. \<exists>pre post. lower line = pre @ lower w @ post)"
    by (rule bspec)
  then have k: "\<exists>line w pre post. line \<in> set (splitlines experience_text) \<and> ''job E'' = strip line
          \<and> w \<in> set experience_keywords \<and> lower line = pre @ lower w @ post"
    by blast
  have "''worked C  '' = [] @ ''worked C'' @ ''  ''
      \<and> (\<forall>c \<in> set ([] :: string). is_space c) \<and> (\<forall>c \<in> set ''  ''. is_space c)
      \<and> (''worked C'' = [] \<or> \<not> is_space (hd ''worked C'') \<and> \<not> is_space (last ''worked C''))"
    by (simp add: is_space_def code_point_def)
  then have "\<exists>pre post. ''worked C  '' = pre @ ''worked C'' @ post
      \<and> (\<forall>c \<in> set pre. is_space c) \<and> (\<forall>c \<in> set post. is_space c)
      \<and> (''worked C'' = [] \<or> \<not> is_space (hd ''worked C'') \<and> \<not> is_space (last ''worked C''))"
    by (intro exI)
  then have w: "strip ''worked C  '' = ''worked C''"
    using t [THEN conjunct2, THEN conjunct2, THEN conjunct2, THEN conjunct1] by blast
  show ?thesis
    using v splitlines_experience_text w k by (intro conjI)
qed

lemma splitlines_short_text: "splitlines short_text = [''My Role'', '' sql'']"
  by (simp add: short_text_def splitlines_def is_linebreak_def code_point_def)

lemma info_skills_short_text: "info_skills (extract_info short_text []) = [''SQL'']"
  by (simp add: info_skills_eq short_text_def sample_skills_def char_eval)

text \<open>
  Claim C10. The skills of the extracted record are free of duplicates and all belong to
  the fixed vocabulary of 23 distinct tokens; a token of the vocabulary is among them
  exactly when its lowercase form is a substring of the lowercased text.
\<close>

theorem skills_from_vocabulary:
  "distinct (info_skills (extract_info text ents))
   \<and> set (info_skills (extract_info text ents)) \<subseteq> set sample_skills
   \<and> length sample_skills = 23 \<and> distinct sample_skills
   \<and> (\<forall>tok \<in> set sample_skills.
        tok \<in> set (info_skills (extract_info text ents))
          \<longleftrightarrow> (\<exists>pre post. lower text = pre @ lower tok @ post))"
proof (intro conjI ballI)
  show "distinct (info_skills (extract_info text ents))"
    by (simp add: info_skills_eq)
  show "set (info_skills (extract_info text ents)) \<subseteq> set sample_skills"
    by (auto simp: info_skills_eq)
  show "length sample_skills = 23" by (rule length_sample_skills)
  show "distinct sample_skills" by (rule distinct_sample_skills)
next
  fix tok
  assume "tok \<in> set sample_skills"
  then show "tok \<in> set (info_skills (extract_info text ents))
          \<longleftrightarrow> (\<exists>pre post. lower text = pre @ lower tok @ post)"
    by (simp add: info_skills_eq py_in_iff_substring)
qed

theorem skills_from_vocabulary_witness:
  "info_skills (extract_info short_text []) = [''SQL'']
   \<and> ''SQL'' \<in> set sample_skills
   \<and> (\<exists>pre post. lower short_text = pre @ lower ''SQL'' @ post)"
proof -
  have v: "''SQL'' \<in> set sample_skills" by (simp add: sample_skills_def)
  have "\<forall>tok \<in> set sample_skills.
        tok \<in> set (info_skills (extract_info short_text []))
          \<longleftrightarrow> (\<exists>pre post. lower short_text = pre @ lower tok @ post)"
    by (rule skills_from_vocabulary [THEN conjunct2, THEN conjunct2, THEN conjunct2,
          THEN conjunct2])
  then have "''SQL'' \<in> set (info_skills (extract_info short_text []))
          \<longleftrightarrow> (\<exists>pre post. lower short_text = pre @ lower ''SQL'' @ post)"
    using v by (rule bspec)
  then have "\<exists>pre post. lower short_text = pre @ lower ''SQL'' @ post"
    by (simp add: info_skills_short_text)
  then show ?thesis
    using v info_skills_short_text by (intro conjI)
qed

section \<open>Properties of the matcher\<close>
































end
